theory Spec2Isabelle
  imports Main
begin

section \<open>The importer launcher (import-project.py)\<close>

text \<open>
  The script locates the Godot editor binary for the host platform (or takes it from the
  environment variable GODOT_EDITOR), checks that the project directory holds a file
  project.godot, runs the editor on the project and exits with the editor's return code.

  Everything the script reads from its surroundings is a field of the record \<open>host\<close>;
  everything it does to them is an \<open>event\<close> of the trace it returns, in program order.
  The way the process ends is a \<open>process_end\<close>.
\<close>

subsection \<open>Strings\<close>

text \<open>
  A Python string is modelled as a \<open>string\<close>, the character \<open>c\<close> standing for the code
  point \<open>of_char c\<close> (below 256). On these code points \<open>str.lower\<close> adds 32 to the
  letters A to Z and to the upper-case letters of Latin-1 (192 to 222 but the
  multiplication sign 215), and leaves every other code point as it is.
\<close>

definition lower_char :: "char \<Rightarrow> char" where
  "lower_char c =
     (let n = (of_char c :: nat)
      in if (65 \<le> n \<and> n \<le> 90) \<or> (192 \<le> n \<and> n \<le> 222 \<and> n \<noteq> 215)
         then char_of (n + 32) else c)"

definition lower :: "string \<Rightarrow> string" where
  "lower s = map lower_char s"

definition startswith :: "string \<Rightarrow> string \<Rightarrow> bool" where
  "startswith s p = (take (length p) s = p)"

definition endswith :: "string \<Rightarrow> string \<Rightarrow> bool" where
  "endswith s p = (length p \<le> length s \<and> drop (length s - length p) s = p)"

text \<open>\<open>s.split(c)\<close>: the pieces of \<open>s\<close> between the occurrences of \<open>c\<close>, empty ones kept.\<close>

fun split_on :: "char \<Rightarrow> string \<Rightarrow> string list" where
  "split_on c [] = [[]]"
| "split_on c (x # xs) =
     (if x = c then [] # split_on c xs
      else (case split_on c xs of
              [] \<Rightarrow> [[x]]
            | w # ws \<Rightarrow> (x # w) # ws))"

text \<open>\<open>sep.join(comps)\<close>.\<close>

fun str_join :: "string \<Rightarrow> string list \<Rightarrow> string" where
  "str_join sep [] = []"
| "str_join sep [x] = x"
| "str_join sep (x # y # ys) = x @ sep @ str_join sep (y # ys)"

subsection \<open>os.path on a POSIX host (posixpath)\<close>

text \<open>
  \<open>os.path.join(a, *p)\<close>: a component that starts with the separator replaces what was
  joined so far; otherwise it is appended, after a separator unless the path so far is
  empty or ends with one.
\<close>

definition join_step :: "string \<Rightarrow> string \<Rightarrow> string" where
  "join_step path b =
     (if startswith b ''/'' then b
      else if path = [] \<or> endswith path ''/'' then path @ b
      else path @ ''/'' @ b)"

definition join :: "string \<Rightarrow> string list \<Rightarrow> string" where
  "join a p = foldl join_step a p"

text \<open>
  The loop of \<open>os.path.normpath\<close> over the components of the path: empty components and
  \<open>.\<close> are dropped, \<open>..\<close> removes the component before it where there is one to remove.
\<close>

fun normpath_comps :: "nat \<Rightarrow> string list \<Rightarrow> string list \<Rightarrow> string list" where
  "normpath_comps initial_slashes new_comps [] = new_comps"
| "normpath_comps initial_slashes new_comps (component # comps) =
     (if component = [] \<or> component = ''.''
      then normpath_comps initial_slashes new_comps comps
      else if component \<noteq> ''..'' \<or> (initial_slashes = 0 \<and> new_comps = [])
                \<or> (new_comps \<noteq> [] \<and> last new_comps = ''..'')
      then normpath_comps initial_slashes (new_comps @ [component]) comps
      else if new_comps \<noteq> [] then normpath_comps initial_slashes (butlast new_comps) comps
      else normpath_comps initial_slashes new_comps comps)"

definition normpath :: "string \<Rightarrow> string" where
  "normpath path =
     (if path = [] then ''.''
      else
        let initial_slashes =
              (if startswith path ''/''
               then (if startswith path ''//'' \<and> \<not> startswith path ''///'' then 2 else 1)
               else (0::nat));
            comps = normpath_comps initial_slashes [] (split_on CHR ''/'' path);
            path' = replicate initial_slashes CHR ''/'' @ str_join ''/'' comps
        in if path' = [] then ''.'' else path')"

definition isabs :: "string \<Rightarrow> bool" where
  "isabs s = startswith s ''/''"

text \<open>\<open>os.path.abspath(path)\<close>, with the value of \<open>os.getcwd()\<close> as first argument.\<close>

definition abspath :: "string \<Rightarrow> string \<Rightarrow> string" where
  "abspath cwd path = normpath (if \<not> isabs path then join cwd [path] else path)"

subsection \<open>The host, the trace and the end of the process\<close>

text \<open>
  \<open>subprocess.run\<close> either returns a completed process with the child's return code (a
  negative number \<open>- n\<close> when signal \<open>n\<close> ended the child) or raises \<open>OSError\<close> because the
  child could not be started.
\<close>

datatype run_result = CompletedProcess int | OSError

record host =
  platform_system :: string
  platform_machine :: string
  argv :: "string list"
  environ :: "string \<rightharpoonup> string"
  getcwd :: string
  path_exists :: "string \<Rightarrow> bool"
  path_isfile :: "string \<Rightarrow> bool"
  subprocess_run :: "string list \<Rightarrow> run_result"

text \<open>
  \<open>Stderr s\<close> is one \<open>print(s, file=sys.stderr)\<close>, \<open>Exists p\<close> one call of
  \<open>os.path.exists\<close>, \<open>Isfile p\<close> one call of \<open>os.path.isfile\<close>, and \<open>Run cmd\<close> one call of
  \<open>subprocess.run\<close> with the argument list \<open>cmd\<close>.
\<close>

datatype event = Stderr string | Exists string | Isfile string | Run "string list"

text \<open>
  The process ends by \<open>sys.exit(n)\<close>, or by the exception that \<open>subprocess.run\<close> raised
  and nothing caught.
\<close>

datatype process_end = SystemExit int | Uncaught_OSError

subsection \<open>detect_editor_binary\<close>

text \<open>The architecture token: lines 13 to 17 of the script.\<close>

definition arch_token :: "string \<Rightarrow> string" where
  "arch_token platform_machine_value =
     (let machine = lower platform_machine_value
      in if machine \<in> set [''arm64'', ''aarch64''] then ''arm64'' else ''x86_64'')"

text \<open>
  The file name: lines 19 to 27. \<open>None\<close> is the \<open>else\<close> branch, where the script reports
  the platform as unsupported.
\<close>

definition editor_name :: "string \<Rightarrow> string \<Rightarrow> string option" where
  "editor_name system arch =
     (if system = ''Windows'' then Some (''godot.windows.editor.'' @ arch @ ''.executable.mono.exe'')
      else if system = ''Linux'' then Some (''godot.linuxbsd.editor.'' @ arch @ ''.executable.mono'')
      else if system = ''Darwin'' then Some (''godot.macos.editor.'' @ arch @ ''.executable.mono'')
      else None)"

text \<open>
  The function returns the trace of what it did and either the path of the editor
  (\<open>Inr\<close>) or the way it ended the process (\<open>Inl\<close>).
\<close>

definition detect_editor_binary :: "host \<Rightarrow> event list \<times> (process_end + string)" where
  "detect_editor_binary h =
     (let system = platform_system h;
          arch = arch_token (platform_machine h)
      in case editor_name system arch of
           None \<Rightarrow> ([Stderr (''Unsupported platform: '' @ system)], Inl (SystemExit 1))
         | Some name \<Rightarrow>
             let path = join ''godot'' [''bin'', name]
             in if \<not> path_exists h path
                then ([Exists path,
                       Stderr (''Editor binary not found: '' @ path),
                       Stderr ''Build the editor first: uv run poe build-godot''],
                      Inl (SystemExit 1))
                else ([Exists path], Inr path))"

subsection \<open>main\<close>

text \<open>Line 39: the first command-line argument after the program's name, or the default.\<close>

definition project_argument :: "host \<Rightarrow> string" where
  "project_argument h = (if length (argv h) > 1 then argv h ! 1 else ''./game'')"

text \<open>
  Line 40, \<open>os.environ.get("GODOT_EDITOR") or detect_editor_binary()\<close>: the value of the
  variable when it is set and not the empty string (the empty string is false in
  Python, as \<open>None\<close> is), the detected binary otherwise.
\<close>

definition locate_editor :: "host \<Rightarrow> event list \<times> (process_end + string)" where
  "locate_editor h =
     (case environ h ''GODOT_EDITOR'' of
        None \<Rightarrow> detect_editor_binary h
      | Some v \<Rightarrow> if v \<noteq> [] then ([], Inr v) else detect_editor_binary h)"

definition main :: "host \<Rightarrow> event list \<times> process_end" where
  "main h =
     (let project = project_argument h;
          (located, editor_or_exit) = locate_editor h
      in case editor_or_exit of
           Inl ended \<Rightarrow> (located, ended)
         | Inr editor \<Rightarrow>
             let project = abspath (getcwd h) project;
                 marker = join project [''project.godot'']
             in if \<not> path_isfile h marker
                then (located @ [Isfile marker,
                                 Stderr (''No project.godot found in: '' @ project)],
                      SystemExit 1)
                else
                  let cmd = [editor, ''--headless'', ''--import'', ''--path'', project]
                  in (located @ [Isfile marker, Run cmd],
                      case subprocess_run h cmd of
                        CompletedProcess returncode \<Rightarrow> SystemExit returncode
                      | OSError \<Rightarrow> Uncaught_OSError))"

subsection \<open>Hosts to run the script on\<close>

text \<open>
  A Linux machine on arm64 where the editor has been built, started in \<open>/work\<close> with no
  argument and no override, with a project in \<open>/work/game\<close> and an editor that returns 7.
\<close>

definition built_host :: host where
  "built_host =
     \<lparr>platform_system = ''Linux'', platform_machine = ''aarch64'',
      argv = [''import-project.py''], environ = Map.empty, getcwd = ''/work'',
      path_exists = (\<lambda>p. p = ''godot/bin/godot.linuxbsd.editor.arm64.executable.mono''),
      path_isfile = (\<lambda>p. p = ''/work/game/project.godot''),
      subprocess_run = (\<lambda>cmd. CompletedProcess 7)\<rparr>"

text \<open>
  A machine whose operating system the script does not know, with nothing built and no
  project, where no program can be started.
\<close>

definition bare_host :: host where
  "bare_host =
     \<lparr>platform_system = ''Plan9'', platform_machine = ''x86_64'',
      argv = [''import-project.py''], environ = Map.empty, getcwd = ''/work'',
      path_exists = (\<lambda>p. False),
      path_isfile = (\<lambda>p. False),
      subprocess_run = (\<lambda>cmd. OSError)\<rparr>"

text \<open>The built host with another operating system and machine, every path existing.\<close>

definition host_of :: "string \<Rightarrow> string \<Rightarrow> host" where
  "host_of system machine =
     built_host\<lparr>platform_system := system, platform_machine := machine,
                path_exists := (\<lambda>p. True)\<rparr>"

text \<open>The built host with an editor that signal 9 ends.\<close>

definition killed_host :: host where
  "killed_host = built_host\<lparr>subprocess_run := (\<lambda>cmd. CompletedProcess (- 9))\<rparr>"

text \<open>The built host before the editor was built, and the built host without its project.\<close>

definition unbuilt_host :: host where
  "unbuilt_host = built_host\<lparr>path_exists := (\<lambda>p. False)\<rparr>"

definition no_project_host :: host where
  "no_project_host = built_host\<lparr>path_isfile := (\<lambda>p. False)\<rparr>"

definition unbuilt_no_project_host :: host where
  "unbuilt_no_project_host = unbuilt_host\<lparr>path_isfile := (\<lambda>p. False)\<rparr>"

text \<open>
  Hosts where GODOT_EDITOR is set: to the empty string on the built host and on the bare
  host; to a path that does not exist, on the built host (where no program of that path
  can be started) and on the bare host with a project in \<open>/work/game\<close>; and on that last
  host with an editor that can be started and returns 0.
\<close>

definition empty_override_host :: host where
  "empty_override_host = built_host\<lparr>environ := [''GODOT_EDITOR'' \<mapsto> '''']\<rparr>"

definition bare_empty_override_host :: host where
  "bare_empty_override_host = bare_host\<lparr>environ := [''GODOT_EDITOR'' \<mapsto> '''']\<rparr>"

definition missing_override_host :: host where
  "missing_override_host =
     built_host\<lparr>environ := [''GODOT_EDITOR'' \<mapsto> ''/opt/missing/godot''],
                subprocess_run := (\<lambda>cmd. OSError)\<rparr>"

definition bare_override_host :: host where
  "bare_override_host =
     bare_host\<lparr>environ := [''GODOT_EDITOR'' \<mapsto> ''/opt/godot''],
               path_isfile := (\<lambda>p. p = ''/work/game/project.godot'')\<rparr>"

definition bare_stub_host :: host where
  "bare_stub_host = bare_override_host\<lparr>subprocess_run := (\<lambda>cmd. CompletedProcess 0)\<rparr>"

text \<open>The built host started with a project argument and further arguments.\<close>

definition argument_host :: host where
  "argument_host =
     built_host\<lparr>argv := [''import-project.py'', ''demo/../app/'', ''--verbose'']\<rparr>"

subsection \<open>The words of the specification\<close>

text \<open>
  Two characters are the same letter when they are equal, or when one is an upper-case
  letter of ASCII and the other the lower-case letter 32 code points above it. Two
  strings are equal case-insensitively when they are so character by character.
\<close>

definition same_letter :: "char \<Rightarrow> char \<Rightarrow> bool" where
  "same_letter c d =
     (c = d
      \<or> (65 \<le> (of_char c :: nat) \<and> (of_char c :: nat) \<le> 90
           \<and> (of_char d :: nat) = of_char c + 32)
      \<or> (65 \<le> (of_char d :: nat) \<and> (of_char d :: nat) \<le> 90
           \<and> (of_char c :: nat) = of_char d + 32))"

definition caseless_eq :: "string \<Rightarrow> string \<Rightarrow> bool" where
  "caseless_eq a b = list_all2 same_letter a b"

text \<open>
  The table of operating systems of the specification: the value of
  \<open>platform.system()\<close>, its token in the file name, and the suffix of the file name.
\<close>

definition os_tokens :: "(string \<times> string \<times> string) list" where
  "os_tokens =
     [(''Windows'', ''windows'', ''.exe''),
      (''Linux'', ''linuxbsd'', ''''),
      (''Darwin'', ''macos'', '''')]"

text \<open>The pattern \<open>godot.<os-token>.editor.<arch-token>.executable.mono[.exe]\<close>.\<close>

definition editor_filename :: "string \<Rightarrow> string \<Rightarrow> string \<Rightarrow> string" where
  "editor_filename os_token arch suffix =
     ''godot.'' @ os_token @ ''.editor.'' @ arch @ ''.executable.mono'' @ suffix"

section \<open>Properties of the launcher\<close>

subsection \<open>What each function reads, and main by cases\<close>

lemma detect_editor_binary_reads [simp]:
  "detect_editor_binary (h\<lparr>environ := e\<rparr>) = detect_editor_binary h"
  "detect_editor_binary (h\<lparr>argv := a\<rparr>) = detect_editor_binary h"
  by (simp_all add: detect_editor_binary_def Let_def split: option.split)

lemma locate_editor_reads [simp]:
  "locate_editor (h\<lparr>argv := a\<rparr>) = locate_editor h"
  by (simp add: locate_editor_def split: option.split)

lemma main_not_located:
  "locate_editor h = (tr, Inl ended) \<Longrightarrow> main h = (tr, ended)"
  by (simp add: main_def)

lemma main_located:
  "locate_editor h = (tr, Inr editor) \<Longrightarrow>
   main h =
     (if path_isfile h (join (abspath (getcwd h) (project_argument h)) [''project.godot''])
      then (tr @ [Isfile (join (abspath (getcwd h) (project_argument h)) [''project.godot'']),
                  Run [editor, ''--headless'', ''--import'', ''--path'',
                       abspath (getcwd h) (project_argument h)]],
            case subprocess_run h [editor, ''--headless'', ''--import'', ''--path'',
                                   abspath (getcwd h) (project_argument h)] of
              CompletedProcess returncode \<Rightarrow> SystemExit returncode
            | OSError \<Rightarrow> Uncaught_OSError)
      else (tr @ [Isfile (join (abspath (getcwd h) (project_argument h)) [''project.godot'']),
                  Stderr (''No project.godot found in: '' @
                          abspath (getcwd h) (project_argument h))],
            SystemExit 1))"
  by (simp add: main_def Let_def)

lemma main_reads:
  "locate_editor h = locate_editor h' \<Longrightarrow> project_argument h = project_argument h' \<Longrightarrow>
   getcwd h = getcwd h' \<Longrightarrow> path_isfile h = path_isfile h' \<Longrightarrow>
   subprocess_run h = subprocess_run h' \<Longrightarrow> main h = main h'"
  by (simp add: main_def Let_def split: prod.split sum.split)

subsection \<open>Strings, paths and the detection by cases\<close>

lemma char_of_add_eq:
  "n + 32 < 256 \<Longrightarrow> char_of (n + 32 :: nat) = d \<longleftrightarrow> n + 32 = of_char d"
  by (simp add: char_of_eq_iff take_bit_eq_mod)

lemma lower_char_eq_iff:
  assumes "(of_char d :: nat) < 65 \<or> (90 < (of_char d :: nat) \<and> (of_char d :: nat) < 192)"
  shows "lower_char c = d \<longleftrightarrow> same_letter c d"
proof -
  let ?n = "of_char c :: nat"
  consider (ascii) "65 \<le> ?n \<and> ?n \<le> 90"
    | (latin) "192 \<le> ?n \<and> ?n \<le> 222 \<and> ?n \<noteq> 215"
    | (other) "\<not> (65 \<le> ?n \<and> ?n \<le> 90) \<and> \<not> (192 \<le> ?n \<and> ?n \<le> 222 \<and> ?n \<noteq> 215)"
    by blast
  then show ?thesis
  proof cases
    case ascii
    then have "lower_char c = char_of (?n + 32)" by (simp add: lower_char_def)
    moreover have "char_of (?n + 32) = d \<longleftrightarrow> ?n + 32 = of_char d"
      using ascii by (intro char_of_add_eq) simp
    ultimately show ?thesis using ascii assms by (auto simp: same_letter_def)
  next
    case latin
    then have "lower_char c = char_of (?n + 32)" by (simp add: lower_char_def)
    moreover have "char_of (?n + 32) = d \<longleftrightarrow> ?n + 32 = of_char d"
      using latin by (intro char_of_add_eq) simp
    ultimately show ?thesis using latin assms by (auto simp: same_letter_def)
  next
    case other
    then have "lower_char c = c" by (auto simp add: lower_char_def Let_def)
    then show ?thesis using other assms by (auto simp: same_letter_def)
  qed
qed

lemma lower_eq_iff:
  assumes "\<forall>d \<in> set t. (of_char d :: nat) < 65 \<or> (90 < (of_char d :: nat) \<and> (of_char d :: nat) < 192)"
  shows "lower s = t \<longleftrightarrow> caseless_eq s t"
  using assms
proof (induction t arbitrary: s)
  case Nil
  then show ?case by (simp add: lower_def caseless_eq_def)
next
  case (Cons d t)
  show ?case
  proof (cases s)
    case Nil
    then show ?thesis by (simp add: lower_def caseless_eq_def)
  next
    case (Cons c s')
    have "lower_char c = d \<longleftrightarrow> same_letter c d"
      using Cons.prems by (intro lower_char_eq_iff) simp
    moreover have "lower s' = t \<longleftrightarrow> caseless_eq s' t"
      using Cons.prems by (intro Cons.IH) simp
    ultimately show ?thesis using Cons by (simp add: lower_def caseless_eq_def)
  qed
qed

lemma join_godot_bin: "join ''godot'' [''bin'', name] = ''godot/bin/'' @ name \<or> startswith name ''/''"
  by (simp add: join_def join_step_def startswith_def endswith_def)

lemma editor_name_not_rooted:
  "editor_name system arch = Some name \<Longrightarrow> \<not> startswith name ''/''"
  by (auto simp: editor_name_def startswith_def split: if_splits)

lemma join_editor_name:
  "editor_name system arch = Some name \<Longrightarrow> join ''godot'' [''bin'', name] = ''godot/bin/'' @ name"
  using join_godot_bin [of name] editor_name_not_rooted [of system arch name] by simp

lemma detect_editor_binary_supported:
  assumes "editor_name (platform_system h) (arch_token (platform_machine h)) = Some name"
  shows "detect_editor_binary h =
           (if path_exists h (''godot/bin/'' @ name)
            then ([Exists (''godot/bin/'' @ name)], Inr (''godot/bin/'' @ name))
            else ([Exists (''godot/bin/'' @ name),
                   Stderr (''Editor binary not found: '' @ ''godot/bin/'' @ name),
                   Stderr ''Build the editor first: uv run poe build-godot''],
                  Inl (SystemExit 1)))"
  using assms join_editor_name [OF assms] by (simp add: detect_editor_binary_def Let_def)

lemma detect_editor_binary_unsupported:
  assumes "editor_name (platform_system h) (arch_token (platform_machine h)) = None"
  shows "detect_editor_binary h =
           ([Stderr (''Unsupported platform: '' @ platform_system h)], Inl (SystemExit 1))"
  using assms by (simp add: detect_editor_binary_def Let_def)

lemma editor_name_None_iff:
  "editor_name system arch = None \<longleftrightarrow> system \<notin> set [''Windows'', ''Linux'', ''Darwin'']"
  by (simp add: editor_name_def)

lemma editor_name_os_tokens:
  "(system, os_token, suffix) \<in> set os_tokens \<Longrightarrow>
   editor_name system arch = Some (editor_filename os_token arch suffix)"
  by (auto simp: os_tokens_def editor_name_def editor_filename_def)

lemma detect_editor_binary_trace:
  "ev \<in> set (fst (detect_editor_binary h)) \<Longrightarrow> (\<exists>s. ev = Stderr s) \<or> (\<exists>p. ev = Exists p)"
  by (auto simp: detect_editor_binary_def Let_def split: option.splits if_splits)

lemma detect_editor_binary_end:
  "detect_editor_binary h = (tr, Inl ended) \<Longrightarrow> ended = SystemExit 1"
  by (auto simp: detect_editor_binary_def Let_def split: option.splits if_splits)

lemma locate_editor_trace:
  "ev \<in> set (fst (locate_editor h)) \<Longrightarrow> (\<exists>s. ev = Stderr s) \<or> (\<exists>p. ev = Exists p)"
  using detect_editor_binary_trace [of ev h]
  by (auto simp: locate_editor_def split: option.splits if_splits)

lemma locate_editor_end:
  "locate_editor h = (tr, Inl ended) \<Longrightarrow> ended = SystemExit 1"
  using detect_editor_binary_end [of h tr ended]
  by (auto simp: locate_editor_def split: option.splits if_splits)

lemma locate_editor_no_override:
  "environ h ''GODOT_EDITOR'' = None \<or> environ h ''GODOT_EDITOR'' = Some [] \<Longrightarrow>
   locate_editor h = detect_editor_binary h"
  by (auto simp: locate_editor_def)

lemma locate_editor_override:
  "environ h ''GODOT_EDITOR'' = Some v \<Longrightarrow> v \<noteq> [] \<Longrightarrow> locate_editor h = ([], Inr v)"
  by (simp add: locate_editor_def)

lemma normpath_isabs: "isabs p \<Longrightarrow> isabs (normpath p)"
  by (auto simp: isabs_def normpath_def startswith_def Let_def)

lemma join_isabs: "isabs cwd \<Longrightarrow> isabs (join cwd [p])"
  by (cases cwd) (auto simp: isabs_def join_def join_step_def startswith_def)

lemma abspath_isabs: "isabs cwd \<Longrightarrow> isabs (abspath cwd p)"
  by (simp add: abspath_def normpath_isabs join_isabs)

subsection \<open>The script on the hosts\<close>

lemma abspath_work_game: "abspath ''/work'' ''./game'' = ''/work/game''"
  by (simp add: abspath_def isabs_def normpath_def join_def join_step_def startswith_def
      endswith_def Let_def)

lemma abspath_work_app: "abspath ''/work'' ''demo/../app/'' = ''/work/app''"
  by (simp add: abspath_def isabs_def normpath_def join_def join_step_def startswith_def
      endswith_def Let_def)

lemma join_work_game: "join ''/work/game'' [''project.godot''] = ''/work/game/project.godot''"
  by (simp add: join_def join_step_def startswith_def endswith_def)

lemma arch_token_values:
  "arch_token ''aarch64'' = ''arm64''" "arch_token ''arm64'' = ''arm64''"
  "arch_token ''x86_64'' = ''x86_64''"
  by (simp_all add: arch_token_def lower_def lower_char_def)

lemma join_godot_bin_linux_arm64:
  "join ''godot'' [''bin'', ''godot.linuxbsd.editor.arm64.executable.mono''] =
   ''godot/bin/godot.linuxbsd.editor.arm64.executable.mono''"
  by (simp add: join_def join_step_def startswith_def endswith_def)

lemmas host_defs =
  built_host_def bare_host_def host_of_def killed_host_def unbuilt_host_def
  no_project_host_def unbuilt_no_project_host_def empty_override_host_def
  bare_empty_override_host_def missing_override_host_def bare_override_host_def
  bare_stub_host_def argument_host_def

lemmas run_defs =
  main_def locate_editor_def project_argument_def detect_editor_binary_def editor_name_def
  abspath_work_game abspath_work_app join_work_game arch_token_values
  join_godot_bin_linux_arm64 Let_def

subsection \<open>The architecture token\<close>

text \<open>
  C7. For every machine string the architecture token is \<open>arm64\<close> when the string equals
  \<open>arm64\<close> or \<open>aarch64\<close> case-insensitively, and the fallback \<open>x86_64\<close> for every other
  string; the mapping is total, no machine string is an error.
\<close>

theorem arch_token_caseless:
  "arch_token machine =
     (if caseless_eq machine ''arm64'' \<or> caseless_eq machine ''aarch64'' then ''arm64''
      else ''x86_64'')"
proof -
  have "lower machine = ''arm64'' \<longleftrightarrow> caseless_eq machine ''arm64''"
    by (rule lower_eq_iff) simp
  moreover have "lower machine = ''aarch64'' \<longleftrightarrow> caseless_eq machine ''aarch64''"
    by (rule lower_eq_iff) simp
  ultimately show ?thesis by (simp add: arch_token_def)
qed

theorem arch_token_caseless_witness:
  "arch_token ''arm64'' = ''arm64'' \<and> arch_token ''aarch64'' = ''arm64''
   \<and> arch_token ''ARM64'' = ''arm64'' \<and> arch_token ''AArch64'' = ''arm64''
   \<and> arch_token ''x86_64'' = ''x86_64'' \<and> arch_token ''AMD64'' = ''x86_64''
   \<and> arch_token ''armv7l'' = ''x86_64'' \<and> arch_token ''riscv64'' = ''x86_64''
   \<and> arch_token '''' = ''x86_64''"
  using arch_token_caseless [of "''arm64''"] arch_token_caseless [of "''aarch64''"]
    arch_token_caseless [of "''ARM64''"] arch_token_caseless [of "''AArch64''"]
    arch_token_caseless [of "''x86_64''"] arch_token_caseless [of "''AMD64''"]
    arch_token_caseless [of "''armv7l''"] arch_token_caseless [of "''riscv64''"]
    arch_token_caseless [of "''''"]
  by (simp add: caseless_eq_def same_letter_def)

subsection \<open>The resolved path\<close>

text \<open>
  C2. For every operating system of the table and every machine string, the path that
  detect_editor_binary checks and returns is the directory \<open>godot/bin/\<close> followed by the
  file name \<open>godot.<os-token>.editor.<arch-token>.executable.mono[.exe]\<close>, with the token
  and the suffix of the table; (Windows, x86_64), (Linux, arm64) and (Darwin, aarch64)
  give the three file names of the specification.
\<close>

theorem resolved_path_pattern:
  assumes "(platform_system h, os_token, suffix) \<in> set os_tokens"
  shows "detect_editor_binary h =
           (let path = ''godot/bin/'' @
                       editor_filename os_token (arch_token (platform_machine h)) suffix
            in if path_exists h path then ([Exists path], Inr path)
               else ([Exists path,
                      Stderr (''Editor binary not found: '' @ path),
                      Stderr ''Build the editor first: uv run poe build-godot''],
                     Inl (SystemExit 1)))"
  using detect_editor_binary_supported [OF editor_name_os_tokens [OF assms]]
  by (simp add: Let_def)

theorem resolved_path_pattern_witness:
  "(platform_system (host_of ''Windows'' ''x86_64''), ''windows'', ''.exe'') \<in> set os_tokens
   \<and> detect_editor_binary (host_of ''Windows'' ''x86_64'') =
       ([Exists ''godot/bin/godot.windows.editor.x86_64.executable.mono.exe''],
        Inr ''godot/bin/godot.windows.editor.x86_64.executable.mono.exe'')
   \<and> (platform_system (host_of ''Linux'' ''arm64''), ''linuxbsd'', '''') \<in> set os_tokens
   \<and> detect_editor_binary (host_of ''Linux'' ''arm64'') =
       ([Exists ''godot/bin/godot.linuxbsd.editor.arm64.executable.mono''],
        Inr ''godot/bin/godot.linuxbsd.editor.arm64.executable.mono'')
   \<and> (platform_system (host_of ''Darwin'' ''aarch64''), ''macos'', '''') \<in> set os_tokens
   \<and> detect_editor_binary (host_of ''Darwin'' ''aarch64'') =
       ([Exists ''godot/bin/godot.macos.editor.arm64.executable.mono''],
        Inr ''godot/bin/godot.macos.editor.arm64.executable.mono'')"
  using
    resolved_path_pattern [of "host_of ''Windows'' ''x86_64''" "''windows''" "''.exe''"]
    resolved_path_pattern [of "host_of ''Linux'' ''arm64''" "''linuxbsd''" "''''"]
    resolved_path_pattern [of "host_of ''Darwin'' ''aarch64''" "''macos''" "''''"]
  by (simp add: host_defs os_tokens_def editor_filename_def arch_token_values Let_def)

subsection \<open>An operating system the script does not know\<close>

text \<open>
  C6, amended. When GODOT_EDITOR is unset or empty and the operating system is none of
  Windows, Linux and Darwin, the launcher writes \<open>Unsupported platform: <system>\<close> to the
  error stream and exits with code 1; it calls neither \<open>os.path.exists\<close> nor
  \<open>os.path.isfile\<close> and starts nothing.
\<close>

theorem unknown_system_unsupported:
  assumes "platform_system h \<notin> set [''Windows'', ''Linux'', ''Darwin'']"
    and "environ h ''GODOT_EDITOR'' = None \<or> environ h ''GODOT_EDITOR'' = Some []"
  shows "main h = ([Stderr (''Unsupported platform: '' @ platform_system h)], SystemExit 1)"
proof -
  have "editor_name (platform_system h) (arch_token (platform_machine h)) = None"
    using assms(1) by (simp add: editor_name_None_iff)
  then have "detect_editor_binary h =
      ([Stderr (''Unsupported platform: '' @ platform_system h)], Inl (SystemExit 1))"
    by (rule detect_editor_binary_unsupported)
  then have "locate_editor h =
      ([Stderr (''Unsupported platform: '' @ platform_system h)], Inl (SystemExit 1))"
    using locate_editor_no_override [OF assms(2)] by simp
  then show ?thesis by (rule main_not_located)
qed

theorem unknown_system_unsupported_witness:
  "platform_system bare_host \<notin> set [''Windows'', ''Linux'', ''Darwin'']
   \<and> environ bare_host ''GODOT_EDITOR'' = None
   \<and> main bare_host = ([Stderr ''Unsupported platform: Plan9''], SystemExit 1)"
  using unknown_system_unsupported [of bare_host]
  by (simp add: host_defs)

text \<open>
  Without the condition on GODOT_EDITOR the statement fails: on Plan9 with the variable
  set to a path, the launcher validates the project, starts the editor and exits with
  the editor's return code, here 0.
\<close>

theorem unknown_system_counterexample:
  "platform_system bare_stub_host = ''Plan9''
   \<and> main bare_stub_host =
       ([Isfile ''/work/game/project.godot'',
         Run [''/opt/godot'', ''--headless'', ''--import'', ''--path'', ''/work/game'']],
        SystemExit 0)"
  by (simp add: host_defs run_defs)

subsection \<open>A binary that does not exist\<close>

text \<open>
  C4, amended. When GODOT_EDITOR is unset or empty, the operating system is supported
  and the resolved path \<open>godot/bin/<name>\<close> does not exist, the launcher checks that
  path, writes \<open>Editor binary not found: <path>\<close> and the hint to build the editor to the
  error stream and exits with code 1; it starts nothing. (The path of a non-empty
  override is never checked.)
\<close>

theorem missing_detected_binary:
  assumes "environ h ''GODOT_EDITOR'' = None \<or> environ h ''GODOT_EDITOR'' = Some []"
    and "editor_name (platform_system h) (arch_token (platform_machine h)) = Some name"
    and "\<not> path_exists h (''godot/bin/'' @ name)"
  shows "main h =
           ([Exists (''godot/bin/'' @ name),
             Stderr (''Editor binary not found: '' @ ''godot/bin/'' @ name),
             Stderr ''Build the editor first: uv run poe build-godot''],
            SystemExit 1)"
proof -
  have "locate_editor h = detect_editor_binary h"
    using assms(1) by (rule locate_editor_no_override)
  also have "\<dots> =
      ([Exists (''godot/bin/'' @ name),
        Stderr (''Editor binary not found: '' @ ''godot/bin/'' @ name),
        Stderr ''Build the editor first: uv run poe build-godot''],
       Inl (SystemExit 1))"
    using detect_editor_binary_supported [OF assms(2)] assms(3) by simp
  finally show ?thesis by (rule main_not_located)
qed

theorem missing_detected_binary_witness:
  "environ unbuilt_host ''GODOT_EDITOR'' = None
   \<and> editor_name (platform_system unbuilt_host) (arch_token (platform_machine unbuilt_host))
       = Some ''godot.linuxbsd.editor.arm64.executable.mono''
   \<and> \<not> path_exists unbuilt_host ''godot/bin/godot.linuxbsd.editor.arm64.executable.mono''
   \<and> main unbuilt_host =
       ([Exists ''godot/bin/godot.linuxbsd.editor.arm64.executable.mono'',
         Stderr ''Editor binary not found: godot/bin/godot.linuxbsd.editor.arm64.executable.mono'',
         Stderr ''Build the editor first: uv run poe build-godot''],
        SystemExit 1)"
  using missing_detected_binary [of unbuilt_host "''godot.linuxbsd.editor.arm64.executable.mono''"]
  by (simp add: host_defs editor_name_def arch_token_values)

text \<open>
  For an overridden path the statement fails: with GODOT_EDITOR set to a path that does
  not exist and a valid project, the launcher reports nothing and calls
  \<open>subprocess.run\<close> on that path; the exception it raises ends the process.
\<close>

theorem missing_binary_counterexample:
  "environ missing_override_host ''GODOT_EDITOR'' = Some ''/opt/missing/godot''
   \<and> \<not> path_exists missing_override_host ''/opt/missing/godot''
   \<and> main missing_override_host =
       ([Isfile ''/work/game/project.godot'',
         Run [''/opt/missing/godot'', ''--headless'', ''--import'', ''--path'', ''/work/game'']],
        Uncaught_OSError)"
  by (simp add: host_defs run_defs)

subsection \<open>The override\<close>

text \<open>
  C3, amended. When GODOT_EDITOR is set to a string that is not empty, the launcher
  takes that string as the editor without any call or message of the detection; what it
  does and how it ends does not depend on the operating system, on the machine or on
  which paths exist, so the value is used even if no such path exists: the launcher
  goes on to validate the project and passes the value to \<open>subprocess.run\<close> as it is.
\<close>

theorem override_used_verbatim:
  assumes "environ h ''GODOT_EDITOR'' = Some v" and "v \<noteq> []"
  shows "locate_editor h = ([], Inr v)
       \<and> main (h\<lparr>platform_system := s, platform_machine := m, path_exists := e\<rparr>) = main h
       \<and> main h =
           (if path_isfile h (join (abspath (getcwd h) (project_argument h)) [''project.godot''])
            then ([Isfile (join (abspath (getcwd h) (project_argument h)) [''project.godot'']),
                   Run [v, ''--headless'', ''--import'', ''--path'',
                        abspath (getcwd h) (project_argument h)]],
                  case subprocess_run h [v, ''--headless'', ''--import'', ''--path'',
                                         abspath (getcwd h) (project_argument h)] of
                    CompletedProcess returncode \<Rightarrow> SystemExit returncode
                  | OSError \<Rightarrow> Uncaught_OSError)
            else ([Isfile (join (abspath (getcwd h) (project_argument h)) [''project.godot'']),
                   Stderr (''No project.godot found in: '' @
                           abspath (getcwd h) (project_argument h))],
                  SystemExit 1))"
proof (intro conjI)
  show located: "locate_editor h = ([], Inr v)"
    using assms by (rule locate_editor_override)
  show "main (h\<lparr>platform_system := s, platform_machine := m, path_exists := e\<rparr>) = main h"
    using assms by (intro main_reads) (simp_all add: locate_editor_def project_argument_def)
  show "main h =
           (if path_isfile h (join (abspath (getcwd h) (project_argument h)) [''project.godot''])
            then ([Isfile (join (abspath (getcwd h) (project_argument h)) [''project.godot'']),
                   Run [v, ''--headless'', ''--import'', ''--path'',
                        abspath (getcwd h) (project_argument h)]],
                  case subprocess_run h [v, ''--headless'', ''--import'', ''--path'',
                                         abspath (getcwd h) (project_argument h)] of
                    CompletedProcess returncode \<Rightarrow> SystemExit returncode
                  | OSError \<Rightarrow> Uncaught_OSError)
            else ([Isfile (join (abspath (getcwd h) (project_argument h)) [''project.godot'']),
                   Stderr (''No project.godot found in: '' @
                           abspath (getcwd h) (project_argument h))],
                  SystemExit 1))"
    using main_located [OF located] by simp
qed

theorem override_used_verbatim_witness:
  "environ bare_override_host ''GODOT_EDITOR'' = Some ''/opt/godot''
   \<and> ''/opt/godot'' \<noteq> []
   \<and> \<not> path_exists bare_override_host ''/opt/godot''
   \<and> locate_editor bare_override_host = ([], Inr ''/opt/godot'')
   \<and> main bare_override_host =
       ([Isfile ''/work/game/project.godot'',
         Run [''/opt/godot'', ''--headless'', ''--import'', ''--path'', ''/work/game'']],
        Uncaught_OSError)"
  using override_used_verbatim [of bare_override_host "''/opt/godot''"]
  by (simp add: host_defs project_argument_def abspath_work_game join_work_game)

text \<open>
  For a variable that is set to the empty string the statement fails: the detection
  runs, and on Plan9 it ends the process.
\<close>

theorem set_override_counterexample:
  "environ bare_empty_override_host ''GODOT_EDITOR'' = Some ''''
   \<and> locate_editor bare_empty_override_host =
       ([Stderr ''Unsupported platform: Plan9''], Inl (SystemExit 1))
   \<and> main bare_empty_override_host =
       ([Stderr ''Unsupported platform: Plan9''], SystemExit 1)"
  by (simp add: host_defs run_defs)

text \<open>
  C9. When GODOT_EDITOR is set to the empty string the launcher does not take it as an
  override: it runs exactly as on the same host with the variable unset, and the editor
  is located by platform detection with its existence check.
\<close>

theorem empty_override_is_unset:
  assumes "environ h ''GODOT_EDITOR'' = Some []"
  shows "main h = main (h\<lparr>environ := (environ h)(''GODOT_EDITOR'' := None)\<rparr>)
       \<and> locate_editor h = detect_editor_binary h"
proof
  show "main h = main (h\<lparr>environ := (environ h)(''GODOT_EDITOR'' := None)\<rparr>)"
    using assms by (intro main_reads) (simp_all add: locate_editor_def project_argument_def)
  show "locate_editor h = detect_editor_binary h"
    using assms by (simp add: locate_editor_def)
qed

theorem empty_override_is_unset_witness:
  "environ empty_override_host ''GODOT_EDITOR'' = Some []
   \<and> main empty_override_host = main built_host
   \<and> main empty_override_host =
       ([Exists ''godot/bin/godot.linuxbsd.editor.arm64.executable.mono'',
         Isfile ''/work/game/project.godot'',
         Run [''godot/bin/godot.linuxbsd.editor.arm64.executable.mono'',
              ''--headless'', ''--import'', ''--path'', ''/work/game'']],
        SystemExit 7)"
  using empty_override_is_unset [of empty_override_host]
  by (simp add: host_defs run_defs)

subsection \<open>A project that is not there\<close>

text \<open>
  C5, amended. When the project directory, resolved to an absolute path, holds no file
  \<open>project.godot\<close>, the launcher exits with code 1 and starts nothing; and when the
  editor was located (by a non-empty override or by the detection) it writes
  \<open>No project.godot found in: <resolved path>\<close> to the error stream before it exits.
\<close>

theorem missing_project:
  assumes "\<not> path_isfile h (join (abspath (getcwd h) (project_argument h)) [''project.godot''])"
  shows "snd (main h) = SystemExit 1
       \<and> (\<forall>cmd. Run cmd \<notin> set (fst (main h)))
       \<and> (\<forall>tr editor. locate_editor h = (tr, Inr editor) \<longrightarrow>
             main h =
               (tr @ [Isfile (join (abspath (getcwd h) (project_argument h)) [''project.godot'']),
                      Stderr (''No project.godot found in: '' @
                              abspath (getcwd h) (project_argument h))],
                SystemExit 1))"
proof -
  obtain tr r where located: "locate_editor h = (tr, r)"
    by (cases "locate_editor h")
  have no_run: "Run cmd \<notin> set tr" for cmd
    using locate_editor_trace [of "Run cmd" h] located by auto
  show ?thesis
  proof (cases r)
    case (Inl ended)
    then have "main h = (tr, ended)" "ended = SystemExit 1"
      using located main_not_located locate_editor_end by blast+
    then show ?thesis using no_run located Inl by simp
  next
    case (Inr editor)
    then show ?thesis
      using main_located [of h tr editor] located assms no_run by simp
  qed
qed

theorem missing_project_witness:
  "\<not> path_isfile no_project_host
       (join (abspath (getcwd no_project_host) (project_argument no_project_host))
          [''project.godot''])
   \<and> locate_editor no_project_host =
       ([Exists ''godot/bin/godot.linuxbsd.editor.arm64.executable.mono''],
        Inr ''godot/bin/godot.linuxbsd.editor.arm64.executable.mono'')
   \<and> main no_project_host =
       ([Exists ''godot/bin/godot.linuxbsd.editor.arm64.executable.mono'',
         Isfile ''/work/game/project.godot'',
         Stderr ''No project.godot found in: /work/game''],
        SystemExit 1)"
  using missing_project [of no_project_host]
  by (simp add: host_defs run_defs)

text \<open>
  The resolved path is not reported whenever the file is missing: where the editor has
  not been built either, the launcher ends in detect_editor_binary, before it looks at
  the project, and the error stream names the binary only.
\<close>

theorem missing_project_counterexample:
  "\<not> path_isfile unbuilt_no_project_host
       (join (abspath (getcwd unbuilt_no_project_host)
                (project_argument unbuilt_no_project_host))
          [''project.godot''])
   \<and> abspath (getcwd unbuilt_no_project_host) (project_argument unbuilt_no_project_host)
       = ''/work/game''
   \<and> main unbuilt_no_project_host =
       ([Exists ''godot/bin/godot.linuxbsd.editor.arm64.executable.mono'',
         Stderr ''Editor binary not found: godot/bin/godot.linuxbsd.editor.arm64.executable.mono'',
         Stderr ''Build the editor first: uv run poe build-godot''],
        SystemExit 1)"
  by (simp add: host_defs run_defs)

subsection \<open>The project path and the command line\<close>

text \<open>
  C8. The project argument is \<open>./game\<close> when the command line has no argument after the
  program's name; the launcher resolves it with \<open>os.path.abspath\<close>, which gives an
  absolute path (the working directory being one); and every use is of the resolved
  path: each call of \<open>os.path.isfile\<close> is on \<open>project.godot\<close> in it, and each call of
  \<open>subprocess.run\<close> has the editor followed by exactly \<open>--headless\<close>, \<open>--import\<close>,
  \<open>--path\<close> and the resolved path, which then has passed the validation.
\<close>

theorem project_path_and_arguments:
  "(length (argv h) \<le> 1 \<longrightarrow> project_argument h = ''./game'')
   \<and> (isabs (getcwd h) \<longrightarrow> isabs (abspath (getcwd h) (project_argument h)))
   \<and> (\<forall>cmd. Run cmd \<in> set (fst (main h)) \<longrightarrow>
         (\<exists>editor. cmd = [editor, ''--headless'', ''--import'', ''--path'',
                           abspath (getcwd h) (project_argument h)])
         \<and> path_isfile h (join (abspath (getcwd h) (project_argument h)) [''project.godot'']))
   \<and> (\<forall>p. Isfile p \<in> set (fst (main h)) \<longrightarrow>
         p = join (abspath (getcwd h) (project_argument h)) [''project.godot''])"
proof -
  obtain tr r where located: "locate_editor h = (tr, r)"
    by (cases "locate_editor h")
  have no_run: "Run cmd \<notin> set tr" and no_isfile: "Isfile p \<notin> set tr" for cmd p
    using locate_editor_trace [of "Run cmd" h] locate_editor_trace [of "Isfile p" h] located
    by auto
  have "project_argument h = ''./game''" if "length (argv h) \<le> 1"
    using that by (simp add: project_argument_def)
  moreover have "isabs (abspath (getcwd h) (project_argument h))" if "isabs (getcwd h)"
    using that by (rule abspath_isabs)
  moreover have
    "(\<forall>cmd. Run cmd \<in> set (fst (main h)) \<longrightarrow>
         (\<exists>editor. cmd = [editor, ''--headless'', ''--import'', ''--path'',
                           abspath (getcwd h) (project_argument h)])
         \<and> path_isfile h (join (abspath (getcwd h) (project_argument h)) [''project.godot'']))
     \<and> (\<forall>p. Isfile p \<in> set (fst (main h)) \<longrightarrow>
         p = join (abspath (getcwd h) (project_argument h)) [''project.godot''])"
  proof (cases r)
    case (Inl ended)
    then have "main h = (tr, ended)"
      using located main_not_located by blast
    then show ?thesis using no_run no_isfile by simp
  next
    case (Inr editor)
    then show ?thesis
      using main_located [of h tr editor] located no_run no_isfile by (simp split: if_splits)
  qed
  ultimately show ?thesis by blast
qed

theorem project_path_and_arguments_witness:
  "length (argv built_host) \<le> 1
   \<and> project_argument built_host = ''./game''
   \<and> isabs (getcwd built_host)
   \<and> abspath (getcwd built_host) (project_argument built_host) = ''/work/game''
   \<and> isabs ''/work/game''
   \<and> Isfile ''/work/game/project.godot'' \<in> set (fst (main built_host))
   \<and> path_isfile built_host ''/work/game/project.godot''
   \<and> Run [''godot/bin/godot.linuxbsd.editor.arm64.executable.mono'',
           ''--headless'', ''--import'', ''--path'', ''/work/game'']
       \<in> set (fst (main built_host))"
  using project_path_and_arguments [of built_host]
  by (simp add: host_defs run_defs isabs_def startswith_def)

text \<open>
  C10. Of the command line only the first argument after the program's name is read:
  two runs on the same host whose command lines agree on that argument do the same and
  end the same, whatever the program's name and the further arguments are. The trace
  holds the binary that was checked, the project path that was validated and the
  arguments of the child.
\<close>

theorem further_arguments_ignored:
  "main (h\<lparr>argv := prog # p # extra\<rparr>) = main (h\<lparr>argv := prog' # p # extra'\<rparr>)"
  by (rule main_reads) (simp_all add: project_argument_def)

theorem further_arguments_ignored_witness:
  "main argument_host = main (built_host\<lparr>argv := [''import-project.py'', ''demo/../app/'']\<rparr>)
   \<and> main argument_host =
       ([Exists ''godot/bin/godot.linuxbsd.editor.arm64.executable.mono'',
         Isfile ''/work/app/project.godot'',
         Stderr ''No project.godot found in: /work/app''],
        SystemExit 1)"
  using further_arguments_ignored
    [where h = built_host and prog = "''import-project.py''" and p = "''demo/../app/''"
       and extra = "[''--verbose'']" and prog' = "''import-project.py''" and extra' = "[]"]
  by (simp add: host_defs run_defs join_def join_step_def startswith_def endswith_def)

subsection \<open>The return code of the editor\<close>

text \<open>
  C1. When the editor has been located and the project is valid, the launcher calls
  \<open>subprocess.run\<close> once, as the last thing it does, and ends with \<open>sys.exit\<close> of the
  return code of the completed child, whatever number that is: 7 for an editor that
  exits with 7, and the negative number that \<open>subprocess.run\<close> gives for a child that a
  signal ended. (Where the child cannot be started there is no return code, and the
  exception of \<open>subprocess.run\<close> ends the process.)
\<close>

theorem child_return_code_passed_through:
  assumes "locate_editor h = (tr, Inr editor)"
    and "path_isfile h (join (abspath (getcwd h) (project_argument h)) [''project.godot''])"
  shows "fst (main h) =
           tr @ [Isfile (join (abspath (getcwd h) (project_argument h)) [''project.godot'']),
                 Run [editor, ''--headless'', ''--import'', ''--path'',
                      abspath (getcwd h) (project_argument h)]]
       \<and> snd (main h) =
           (case subprocess_run h [editor, ''--headless'', ''--import'', ''--path'',
                                   abspath (getcwd h) (project_argument h)] of
              CompletedProcess returncode \<Rightarrow> SystemExit returncode
            | OSError \<Rightarrow> Uncaught_OSError)
       \<and> (\<forall>returncode.
             subprocess_run h [editor, ''--headless'', ''--import'', ''--path'',
                               abspath (getcwd h) (project_argument h)]
               = CompletedProcess returncode
             \<longrightarrow> snd (main h) = SystemExit returncode)"
  using assms by (simp add: main_located)

theorem child_return_code_passed_through_witness:
  "locate_editor built_host =
     ([Exists ''godot/bin/godot.linuxbsd.editor.arm64.executable.mono''],
      Inr ''godot/bin/godot.linuxbsd.editor.arm64.executable.mono'')
   \<and> path_isfile built_host
         (join (abspath (getcwd built_host) (project_argument built_host)) [''project.godot''])
   \<and> main built_host =
       ([Exists ''godot/bin/godot.linuxbsd.editor.arm64.executable.mono'',
         Isfile ''/work/game/project.godot'',
         Run [''godot/bin/godot.linuxbsd.editor.arm64.executable.mono'',
              ''--headless'', ''--import'', ''--path'', ''/work/game'']],
        SystemExit 7)
   \<and> snd (main killed_host) = SystemExit (- 9)"
  using
    child_return_code_passed_through [of built_host
      "[Exists ''godot/bin/godot.linuxbsd.editor.arm64.executable.mono'']"
      "''godot/bin/godot.linuxbsd.editor.arm64.executable.mono''"]
    child_return_code_passed_through [of killed_host
      "[Exists ''godot/bin/godot.linuxbsd.editor.arm64.executable.mono'']"
      "''godot/bin/godot.linuxbsd.editor.arm64.executable.mono''"]
  by (simp add: host_defs run_defs)

end
